theory Spec2Isabelle
  imports Complex_Main "HOL-Library.Word"
begin

unbundle bit_operations_syntax

section \<open>Keys and paths (src/config/path.py)\<close>

text \<open>
  A \<open>Path\<close> holds a tuple of keys. The keys are Python values: \<open>str\<close>, \<open>int\<close>,
  \<open>bool\<close>, \<open>float\<close>, \<open>complex\<close>, \<open>None\<close>, tuples of keys and slices. A finite float is
  written as the rational number it denotes and a complex number as its two parts (NaN and
  the infinities are left out); the bounds of a slice are integers or \<open>None\<close>, as the
  grammar of \<open>path_parser\<close> produces them.
\<close>

datatype key =
    KStr string
  | KInt int
  | KBool bool
  | KFloat rat
  | KComplex rat rat
  | KNone
  | KTuple "key list"
  | KSlice "int option" "int option" "int option"

type_synonym path = "key list"

text \<open>
  Python compares the parts of two paths with \<open>==\<close>, which identifies the numbers of the
  numeric tower: \<open>1 == True == 1.0 == (1+0j)\<close>. \<open>key_num\<close> is the number a numeric key
  denotes; \<open>py_eq\<close> is \<open>==\<close> on keys and \<open>path_eq\<close> is \<open>==\<close> on tuples of keys
  (\<open>Path.__eq__\<close> compares \<open>self.parts == other.parts\<close>).
\<close>

fun key_num :: "key \<Rightarrow> (rat \<times> rat) option" where
  "key_num (KInt i) = Some (of_int i, 0)"
| "key_num (KBool b) = Some (if b then 1 else 0, 0)"
| "key_num (KFloat r) = Some (r, 0)"
| "key_num (KComplex re im) = Some (re, im)"
| "key_num _ = None"

fun py_eq :: "key \<Rightarrow> key \<Rightarrow> bool"
  and py_eq_list :: "key list \<Rightarrow> key list \<Rightarrow> bool" where
  "py_eq (KStr a) k = (case k of KStr b \<Rightarrow> a = b | _ \<Rightarrow> False)"
| "py_eq KNone k = (case k of KNone \<Rightarrow> True | _ \<Rightarrow> False)"
| "py_eq (KSlice a b c) k = (case k of KSlice a' b' c' \<Rightarrow> a = a' \<and> b = b' \<and> c = c' | _ \<Rightarrow> False)"
| "py_eq (KTuple xs) k = (case k of KTuple ys \<Rightarrow> py_eq_list xs ys | _ \<Rightarrow> False)"
| "py_eq (KInt i) k = (key_num k = Some (of_int i, 0))"
| "py_eq (KBool b) k = (key_num k = Some (if b then 1 else 0, 0))"
| "py_eq (KFloat r) k = (key_num k = Some (r, 0))"
| "py_eq (KComplex re im) k = (key_num k = Some (re, im))"
| "py_eq_list [] ys = (ys = [])"
| "py_eq_list (x # xs) ys = (case ys of [] \<Rightarrow> False | y # ys' \<Rightarrow> py_eq x y \<and> py_eq_list xs ys')"

definition path_eq :: "path \<Rightarrow> path \<Rightarrow> bool" where
  "path_eq p q = py_eq_list p q"

text \<open>
  Python's \<open>xs[start:]\<close> and \<open>xs[:stop]\<close> for an integer bound: a negative bound counts
  from the end, and a bound outside the sequence is clamped.
\<close>

definition clamp_index :: "int \<Rightarrow> nat \<Rightarrow> nat" where
  "clamp_index i n =
     (if i < 0 then nat (max 0 (i + int n)) else min (nat i) n)"

definition slice_from :: "int \<Rightarrow> 'a list \<Rightarrow> 'a list" where
  "slice_from start xs = drop (clamp_index start (length xs)) xs"

definition slice_upto :: "int \<Rightarrow> 'a list \<Rightarrow> 'a list" where
  "slice_upto stop xs = take (clamp_index stop (length xs)) xs"

text \<open>\<open>self.parts == other.parts[: len(self)]\<close>\<close>

definition is_prefix_of :: "path \<Rightarrow> path \<Rightarrow> bool" where
  "is_prefix_of self other = path_eq self (slice_upto (int (length self)) other)"

text \<open>\<open>self.parts == other.parts[-len(self) :]\<close>\<close>

definition is_suffix_of :: "path \<Rightarrow> path \<Rightarrow> bool" where
  "is_suffix_of self other = path_eq self (slice_from (- int (length self)) other)"

text \<open>\<open>end = min(len(self), len(other)); self.parts[:end] == other.parts[:end]\<close>\<close>

definition is_compatible_with :: "path \<Rightarrow> path \<Rightarrow> bool" where
  "is_compatible_with self other =
     (let end = int (min (length self) (length other))
      in path_eq (slice_upto end self) (slice_upto end other))"

section \<open>Values and containers (src/config/containers.py)\<close>

text \<open>
  The values of the model are plain Python data, by value: leaves, lists, tuples and
  dicts. A dict is an association list in insertion order whose keys are compared with
  \<open>==\<close>. \<open>PathDict\<close>, \<open>PathList\<close> and \<open>PathTuple\<close> are subclasses of \<open>dict\<close>, \<open>list\<close> and
  \<open>tuple\<close> that compare equal to the plain container with the same items; a tree that
  \<open>to_dict\<close> builds is written with the constructors of the plain containers. The model
  has no object identity: a value handed to \<open>add_entry\<close> is a plain value, which
  \<open>recursive_path_conversion\<close> copies, and a \<open>PathDict\<close>, \<open>PathList\<close> or \<open>PathTuple\<close>
  handed in as a value, which the source would store in the tree as the same object, is
  not among the values of the model.
\<close>

datatype atom =
    AInt int
  | AStr string
  | ABool bool
  | AFloat rat
  | AComplex rat rat
  | ANone
  | ASlice "int option" "int option" "int option"

datatype pyval =
    Leaf atom
  | VList "pyval list"
  | VTuple "pyval list"
  | VDict "(key \<times> pyval) list"

text \<open>
  The exceptions the modelled code raises. \<open>NoViableType path\<close> is the
  \<open>TypeError(f"No viable type found for '{path}'.")\<close> of \<open>get_entry_for_priority\<close>; the
  other constructors are the built-in exceptions, without their messages
  (\<open>Path.track_errors\<close> only extends the arguments of an exception and raises it again).
\<close>

datatype error =
    AssertionError
  | IndexError
  | KeyError
  | TypeError
  | ValueError
  | SyntaxError
  | NoViableType path

text \<open>
  \<open>isinstance(part, int)\<close> holds for \<open>bool\<close> as well, a subclass of \<open>int\<close>;
  \<open>key_index\<close> is the integer such a key stands for as a list index.
\<close>

definition is_int_key :: "key \<Rightarrow> bool" where
  "is_int_key k = (case k of KInt _ \<Rightarrow> True | KBool _ \<Rightarrow> True | _ \<Rightarrow> False)"

definition is_slice_key :: "key \<Rightarrow> bool" where
  "is_slice_key k = (case k of KSlice _ _ _ \<Rightarrow> True | _ \<Rightarrow> False)"

definition key_index :: "key \<Rightarrow> int option" where
  "key_index k =
     (case k of KInt i \<Rightarrow> Some i | KBool b \<Rightarrow> Some (if b then 1 else 0) | _ \<Rightarrow> None)"

text \<open>
  A slice is not hashable (\<open>Path.__hash__\<close> replaces each slice by a tuple for that
  reason), and a tuple is hashable when its items are.
\<close>

fun hashable :: "key \<Rightarrow> bool" where
  "hashable (KSlice _ _ _) = False"
| "hashable (KTuple ks) = list_all hashable ks"
| "hashable _ = True"

subsection \<open>dict\<close>

definition dict_getitem :: "(key \<times> pyval) list \<Rightarrow> key \<Rightarrow> error + pyval" where
  "dict_getitem kvs k =
     (if \<not> hashable k then Inl TypeError
      else case find (\<lambda>(k', _). py_eq k' k) kvs of
             None \<Rightarrow> Inl KeyError
           | Some (_, v) \<Rightarrow> Inr v)"

fun dict_store :: "key \<Rightarrow> pyval \<Rightarrow> (key \<times> pyval) list \<Rightarrow> (key \<times> pyval) list" where
  "dict_store k v [] = [(k, v)]"
| "dict_store k v ((k', v') # kvs) =
     (if py_eq k' k then (k', v) # kvs else (k', v') # dict_store k v kvs)"

definition dict_setitem :: "(key \<times> pyval) list \<Rightarrow> key \<Rightarrow> pyval \<Rightarrow> error + (key \<times> pyval) list" where
  "dict_setitem kvs k v = (if \<not> hashable k then Inl TypeError else Inr (dict_store k v kvs))"

subsection \<open>list and tuple\<close>

text \<open>An integer index: negative indices count from the end; out of range is an IndexError.\<close>

definition list_index :: "nat \<Rightarrow> int \<Rightarrow> nat option" where
  "list_index n i =
     (let j = (if i < 0 then i + int n else i)
      in if 0 \<le> j \<and> j < int n then Some (nat j) else None)"

text \<open>
  \<open>slice.indices\<close>: the bounds of a slice on a sequence of length \<open>n\<close>, as CPython's
  \<open>PySlice_Unpack\<close> and \<open>PySlice_AdjustIndices\<close> compute them. A step of 0 is a
  ValueError.
\<close>

definition adjust_bound :: "int \<Rightarrow> int \<Rightarrow> int option \<Rightarrow> int \<Rightarrow> int" where
  "adjust_bound step n bound dflt =
     (case bound of
        None \<Rightarrow> dflt
      | Some i \<Rightarrow>
          if i < 0 then (if i + n < 0 then (if step < 0 then - 1 else 0) else i + n)
          else if n \<le> i then (if step < 0 then n - 1 else n)
          else i)"

definition slice_indices ::
  "int option \<Rightarrow> int option \<Rightarrow> int option \<Rightarrow> nat \<Rightarrow> error + (int \<times> int \<times> int)" where
  "slice_indices start stop step n =
     (let st = (case step of None \<Rightarrow> 1 | Some s \<Rightarrow> s)
      in if st = 0 then Inl ValueError
         else Inr (adjust_bound st (int n) start (if st < 0 then int n - 1 else 0),
                   adjust_bound st (int n) stop (if st < 0 then - 1 else int n),
                   st))"

definition slicelength :: "int \<Rightarrow> int \<Rightarrow> int \<Rightarrow> nat" where
  "slicelength start stop step =
     (if step < 0 then (if stop < start then nat ((start - stop - 1) div (- step) + 1) else 0)
      else (if start < stop then nat ((stop - start - 1) div step + 1) else 0))"

definition slice_positions :: "int \<Rightarrow> int \<Rightarrow> int \<Rightarrow> nat list" where
  "slice_positions start stop step =
     map (\<lambda>i. nat (start + int i * step)) [0..<slicelength start stop step]"

definition seq_getitem :: "pyval list \<Rightarrow> key \<Rightarrow> (pyval list \<Rightarrow> pyval) \<Rightarrow> error + pyval" where
  "seq_getitem xs k mk =
     (case k of
        KSlice start stop step \<Rightarrow>
          (case slice_indices start stop step (length xs) of
             Inl e \<Rightarrow> Inl e
           | Inr (a, b, s) \<Rightarrow> Inr (mk (map (\<lambda>j. xs ! j) (slice_positions a b s))))
      | _ \<Rightarrow>
          (case key_index k of
             None \<Rightarrow> Inl TypeError
           | Some i \<Rightarrow>
               (case list_index (length xs) i of
                  None \<Rightarrow> Inl IndexError
                | Some j \<Rightarrow> Inr (xs ! j))))"

text \<open>
  The items an assignment to a slice takes from its right-hand side: the items of a list
  or tuple, the keys of a dict, the characters of a string; any other leaf is not
  iterable.
\<close>

fun val_of_key :: "key \<Rightarrow> pyval" where
  "val_of_key (KStr s) = Leaf (AStr s)"
| "val_of_key (KInt i) = Leaf (AInt i)"
| "val_of_key (KBool b) = Leaf (ABool b)"
| "val_of_key (KFloat r) = Leaf (AFloat r)"
| "val_of_key (KComplex re im) = Leaf (AComplex re im)"
| "val_of_key KNone = Leaf ANone"
| "val_of_key (KTuple ks) = VTuple (map val_of_key ks)"
| "val_of_key (KSlice a b c) = Leaf (ASlice a b c)"

definition py_iter :: "pyval \<Rightarrow> error + pyval list" where
  "py_iter v =
     (case v of
        VList xs \<Rightarrow> Inr xs
      | VTuple xs \<Rightarrow> Inr xs
      | VDict kvs \<Rightarrow> Inr (map (val_of_key \<circ> fst) kvs)
      | Leaf (AStr s) \<Rightarrow> Inr (map (\<lambda>c. Leaf (AStr [c])) s)
      | Leaf _ \<Rightarrow> Inl TypeError)"

text \<open>
  \<open>list.__setitem__\<close>. With a slice of step 1 the items between the bounds are replaced
  by the items of the value (\<open>list_ass_slice\<close>); with another step the value must have
  as many items as the slice selects.
\<close>

fun assign_positions :: "nat list \<Rightarrow> pyval list \<Rightarrow> pyval list \<Rightarrow> pyval list" where
  "assign_positions (j # js) (v # vs) xs = assign_positions js vs (xs[j := v])"
| "assign_positions _ _ xs = xs"

definition list_setitem :: "pyval list \<Rightarrow> key \<Rightarrow> pyval \<Rightarrow> error + pyval list" where
  "list_setitem xs k v =
     (case k of
        KSlice start stop step \<Rightarrow>
          (case slice_indices start stop step (length xs) of
             Inl e \<Rightarrow> Inl e
           | Inr (a, b, s) \<Rightarrow>
               (case py_iter v of
                  Inl e \<Rightarrow> Inl e
                | Inr items \<Rightarrow>
                    if s = 1 then Inr (take (nat a) xs @ items @ drop (nat (max a b)) xs)
                    else if length items \<noteq> slicelength a b s then Inl ValueError
                    else Inr (assign_positions (slice_positions a b s) items xs)))
      | _ \<Rightarrow>
          (case key_index k of
             None \<Rightarrow> Inl TypeError
           | Some i \<Rightarrow>
               (case list_index (length xs) i of
                  None \<Rightarrow> Inl IndexError
                | Some j \<Rightarrow> Inr (xs[j := v]))))"

subsection \<open>Conversion and path based item access\<close>

text \<open>
  \<open>recursive_path_conversion\<close> on a plain value: a dict is rebuilt as a \<open>PathDict\<close>
  (\<open>PathDict.update\<close> stores the converted items one by one), a list as a \<open>PathList\<close> and
  a tuple as a \<open>PathTuple\<close>, converting the items; a leaf is returned as it is. The first
  branch of the source, which returns a \<open>PathDict\<close>, \<open>PathList\<close> or \<open>PathTuple\<close> as the
  same object, is not taken for a plain value and has no equation here.
\<close>

fun recursive_path_conversion :: "pyval \<Rightarrow> error + pyval"
  and convert_items :: "(key \<times> pyval) list \<Rightarrow> (key \<times> pyval) list \<Rightarrow> error + (key \<times> pyval) list"
  and convert_seq :: "pyval list \<Rightarrow> error + pyval list" where
  "recursive_path_conversion (Leaf a) = Inr (Leaf a)"
| "recursive_path_conversion (VTuple xs) =
     (case convert_seq xs of Inl e \<Rightarrow> Inl e | Inr ys \<Rightarrow> Inr (VTuple ys))"
| "recursive_path_conversion (VList xs) =
     (case convert_seq xs of Inl e \<Rightarrow> Inl e | Inr ys \<Rightarrow> Inr (VList ys))"
| "recursive_path_conversion (VDict kvs) =
     (case convert_items kvs [] of Inl e \<Rightarrow> Inl e | Inr d \<Rightarrow> Inr (VDict d))"
| "convert_items [] d = Inr d"
| "convert_items ((k, v) # kvs) d =
     (case recursive_path_conversion v of
        Inl e \<Rightarrow> Inl e
      | Inr v' \<Rightarrow>
          (case dict_setitem d k v' of
             Inl e \<Rightarrow> Inl e
           | Inr d' \<Rightarrow> convert_items kvs d'))"
| "convert_seq [] = Inr []"
| "convert_seq (x # xs) =
     (case recursive_path_conversion x of
        Inl e \<Rightarrow> Inl e
      | Inr y \<Rightarrow> (case convert_seq xs of Inl e \<Rightarrow> Inl e | Inr ys \<Rightarrow> Inr (y # ys)))"

text \<open>\<open>super().__getitem__(first)\<close> and \<open>super().__setitem__(first, value)\<close> of a container.\<close>

definition container_getitem :: "pyval \<Rightarrow> key \<Rightarrow> error + pyval" where
  "container_getitem self k =
     (case self of
        VDict kvs \<Rightarrow> dict_getitem kvs k
      | VList xs \<Rightarrow> seq_getitem xs k VList
      | VTuple xs \<Rightarrow> seq_getitem xs k VTuple
      | Leaf _ \<Rightarrow> Inl TypeError)"

definition container_setitem :: "pyval \<Rightarrow> key \<Rightarrow> pyval \<Rightarrow> error + pyval" where
  "container_setitem self k v =
     (case self of
        VDict kvs \<Rightarrow> (case dict_setitem kvs k v of Inl e \<Rightarrow> Inl e | Inr d \<Rightarrow> Inr (VDict d))
      | VList xs \<Rightarrow> (case list_setitem xs k v of Inl e \<Rightarrow> Inl e | Inr ys \<Rightarrow> Inr (VList ys))
      | _ \<Rightarrow> Inl TypeError)"

text \<open>
  \<open>PathMixin.__getitem__\<close> with a \<open>Path\<close>: the empty path is the container itself;
  otherwise the first key is looked up and the rest of the path in what it holds. A slice of
  a list or tuple is a plain list or tuple, and a leaf is no container: neither takes a
  \<open>Path\<close> as a subscript.
\<close>

fun getitem_path :: "pyval \<Rightarrow> path \<Rightarrow> error + pyval" where
  "getitem_path self [] = Inr self"
| "getitem_path self (first # rest) =
     (case container_getitem self first of
        Inl e \<Rightarrow> Inl e
      | Inr entry \<Rightarrow>
          if rest = [] then Inr entry
          else if is_slice_key first then Inl TypeError
          else getitem_path entry rest)"

text \<open>
  \<open>PathMixin.__setitem__\<close> with a \<open>Path\<close> and no default, on a value already converted.
  An empty path has no first key (IndexError). With more than one key the container under
  the first key is updated in place: the model stores the updated container back in its
  slot. A \<open>PathTuple\<close> has no \<open>__setitem__\<close>, and a leaf or a plain slice takes no \<open>Path\<close>.
\<close>

fun setitem_converted :: "pyval \<Rightarrow> path \<Rightarrow> pyval \<Rightarrow> error + pyval" where
  "setitem_converted self [] v = Inl IndexError"
| "setitem_converted self [first] v = container_setitem self first v"
| "setitem_converted self (first # rest) v =
     (case container_getitem self first of
        Inl e \<Rightarrow> Inl e
      | Inr to_update \<Rightarrow>
          if is_slice_key first then Inl TypeError
          else (case to_update of
                  Leaf _ \<Rightarrow> Inl TypeError
                | VTuple _ \<Rightarrow> Inl TypeError
                | _ \<Rightarrow>
                    (case setitem_converted to_update rest v of
                       Inl e \<Rightarrow> Inl e
                     | Inr updated \<Rightarrow> container_setitem self first updated)))"

definition setitem_path :: "pyval \<Rightarrow> path \<Rightarrow> pyval \<Rightarrow> error + pyval" where
  "setitem_path self key v =
     (case recursive_path_conversion v of
        Inl e \<Rightarrow> Inl e
      | Inr v' \<Rightarrow> setitem_converted self key v')"

section \<open>Entries (src/config/configuration.py)\<close>

text \<open>
  \<open>Node\<close> is a \<open>Flag\<close> with the members \<open>LEAF = 1\<close>, \<open>DICT = 2\<close> and \<open>LIST = 4\<close>; a value of
  the flag is a set of members, written as a word of three bits, and \<open>&\<close> is the bitwise
  conjunction. The empty flag \<open>Node(0)\<close> is the only value that is false.
\<close>

type_synonym node = "3 word"

definition LEAF :: node where
  "LEAF = 1"

definition DICT :: node where
  "DICT = 2"

definition LIST :: node where
  "LIST = 4"

definition ANY :: node where
  "ANY = LEAF OR DICT OR LIST"

definition LIST_OR_DICT :: node where
  "LIST_OR_DICT = LIST OR DICT"

definition get_value_and_type :: "pyval \<Rightarrow> pyval \<times> node" where
  "get_value_and_type v =
     (case v of
        VDict _ \<Rightarrow> (VDict [], DICT)
      | VList _ \<Rightarrow> (VList [], LIST)
      | _ \<Rightarrow> (v, LEAF))"

record entry =
  e_path :: path
  e_priority :: int
  e_value :: pyval
  e_type :: node
  e_implicit :: bool

text \<open>
  The constructor of the dataclass with its \<open>__post_init__\<close>: a type of \<open>Node.ANY\<close> is
  replaced by the type of the value.
\<close>

definition Entry :: "path \<Rightarrow> int \<Rightarrow> pyval \<Rightarrow> node \<Rightarrow> bool \<Rightarrow> entry" where
  "Entry p pr v t i =
     (let (val, node_type) = get_value_and_type v
      in \<lparr>e_path = p, e_priority = pr, e_value = v,
          e_type = (if t = ANY then node_type else t), e_implicit = i\<rparr>)"

definition explicit_priority :: "entry \<Rightarrow> int" where
  "explicit_priority self = (if e_implicit self then 0 else e_priority self)"

text \<open>
  \<open>get_implicit_entries\<close>: for \<open>i\<close> in \<open>range(1, len(self.path))\<close> the entry for the prefix
  \<open>self.path[:i]\<close>, made by \<open>dataclasses.replace\<close> (which calls the constructor), then
  \<open>self\<close>.
\<close>

definition implicit_entry_at :: "entry \<Rightarrow> nat \<Rightarrow> entry" where
  "implicit_entry_at self i =
     (let prefix = take i (e_path self);
          part = e_path self ! i;
          implicit_entry = Entry prefix (e_priority self) (e_value self) (e_type self) True
      in if is_int_key part then
           Entry (e_path implicit_entry) (e_priority implicit_entry) (VDict []) LIST_OR_DICT
             (e_implicit implicit_entry)
         else if is_slice_key part then
           Entry (e_path implicit_entry) (e_priority implicit_entry) (VList []) LIST
             (e_implicit implicit_entry)
         else
           Entry (e_path implicit_entry) (e_priority implicit_entry) (VDict []) DICT
             (e_implicit implicit_entry))"

definition get_implicit_entries :: "entry \<Rightarrow> entry list" where
  "get_implicit_entries self =
     map (implicit_entry_at self) [1..<length (e_path self)] @ [self]"

definition merge :: "entry \<Rightarrow> entry \<Rightarrow> error + entry" where
  "merge self other =
     (if \<not> path_eq (e_path self) (e_path other) then Inl AssertionError
      else
        let val = (if explicit_priority self \<ge> explicit_priority other
                   then e_value self else e_value other)
        in Inr (Entry (e_path self) (max (e_priority self) (e_priority other)) val
                  (e_type self AND e_type other) (e_implicit self \<and> e_implicit other)))"

section \<open>The configuration (src/config/configuration.py)\<close>

definition PRIORITIES :: "(string \<times> int) list" where
  "PRIORITIES =
     [(''implicit'', 1), (''config'', 2), (''internal'', 3), (''named_config'', 4),
      (''run_arguments'', 5), (''commandline'', 6), (''forced'', 7)]"

text \<open>
  \<open>entries_by_path\<close> is a \<open>defaultdict(list)\<close>: an association list in insertion order,
  from a path to the entries added at it.
\<close>

record configuration =
  entries_by_path :: "(path \<times> entry list) list"
  active_priority :: int

definition Configuration :: configuration where
  "Configuration = \<lparr>entries_by_path = [], active_priority = the (map_of PRIORITIES ''forced'')\<rparr>"

text \<open>
  \<open>self.entries_by_path[path]\<close>: the list stored at the path; the \<open>defaultdict\<close> stores
  an empty list at a path that is not a key yet. \<open>entries_at\<close> is the list alone.
\<close>

definition entries_at :: "configuration \<Rightarrow> path \<Rightarrow> entry list" where
  "entries_at cfg p =
     (case find (\<lambda>(k, _). path_eq k p) (entries_by_path cfg) of
        None \<Rightarrow> []
      | Some (_, es) \<Rightarrow> es)"

definition has_key :: "configuration \<Rightarrow> path \<Rightarrow> bool" where
  "has_key cfg p = (find (\<lambda>(k, _). path_eq k p) (entries_by_path cfg) \<noteq> None)"

definition getitem_default :: "path \<Rightarrow> configuration \<Rightarrow> entry list \<times> configuration" where
  "getitem_default p cfg =
     (case find (\<lambda>(k, _). path_eq k p) (entries_by_path cfg) of
        None \<Rightarrow> ([], cfg\<lparr>entries_by_path := entries_by_path cfg @ [(p, [])]\<rparr>)
      | Some (_, es) \<Rightarrow> (es, cfg))"

text \<open>\<open>self.entries_by_path[implicit_entry.path].append(implicit_entry)\<close>\<close>

fun append_at :: "path \<Rightarrow> entry \<Rightarrow> (path \<times> entry list) list \<Rightarrow> (path \<times> entry list) list" where
  "append_at p e [] = [(p, [e])]"
| "append_at p e ((k, es) # rest) =
     (if path_eq k p then (k, es @ [e]) # rest else (k, es) # append_at p e rest)"

definition append_entry :: "configuration \<Rightarrow> entry \<Rightarrow> configuration" where
  "append_entry cfg e = cfg\<lparr>entries_by_path := append_at (e_path e) e (entries_by_path cfg)\<rparr>"

text \<open>
  \<open>add_entry\<close>. \<open>priority or self.active_priority\<close> takes the active priority for \<open>None\<close>
  and for 0; the assertion fails for a priority above the active one.
\<close>

definition add_entry :: "path \<Rightarrow> pyval \<Rightarrow> int option \<Rightarrow> configuration \<Rightarrow> error + configuration" where
  "add_entry p v priority cfg =
     (let pr = (case priority of
                  None \<Rightarrow> active_priority cfg
                | Some n \<Rightarrow> if n = 0 then active_priority cfg else n)
      in if \<not> pr \<le> active_priority cfg then Inl AssertionError
         else Inr (foldl append_entry cfg (get_implicit_entries (Entry p pr v ANY False))))"

text \<open>
  \<open>get_entry_for_priority\<close>. \<open>sorted\<close> is stable and \<open>pop()\<close> takes the last entry, so the
  loop walks the sorted entries from the end; \<open>pop()\<close> on an empty list is an IndexError.
\<close>

fun merge_loop :: "entry \<Rightarrow> entry list \<Rightarrow> error + entry" where
  "merge_loop result [] = Inr result"
| "merge_loop result (e # es) =
     (if e_implicit result then
        (case merge result e of Inl err \<Rightarrow> Inl err | Inr r \<Rightarrow> merge_loop r es)
      else Inr result)"

definition resolve :: "path \<Rightarrow> entry list \<Rightarrow> int \<Rightarrow> error + entry" where
  "resolve p stored priority =
     (let entries = filter (\<lambda>e. e_priority e \<ge> priority) stored;
          sorted_entries = sort_key e_priority entries
      in case rev sorted_entries of
           [] \<Rightarrow> Inl IndexError
         | result # remaining \<Rightarrow>
             (case merge_loop result remaining of
                Inl err \<Rightarrow> Inl err
              | Inr r \<Rightarrow> if e_type r = 0 then Inl (NoViableType p) else Inr r))"

definition get_entry_for_priority ::
  "path \<Rightarrow> int \<Rightarrow> configuration \<Rightarrow> (error + entry) \<times> configuration" where
  "get_entry_for_priority p priority cfg =
     (let (stored, cfg') = getitem_default p cfg in (resolve p stored priority, cfg'))"

text \<open>
  \<open>check_write_access\<close>: the loop over \<open>[path[:i] for i in range(1, len(path))]\<close>, with
  \<open>max(explicit_priority, default=0)\<close>.
\<close>

definition max_default :: "int list \<Rightarrow> int \<Rightarrow> int" where
  "max_default xs d = (case xs of [] \<Rightarrow> d | x # rest \<Rightarrow> foldl max x rest)"

fun check_write_access_loop :: "path list \<Rightarrow> int \<Rightarrow> configuration \<Rightarrow> bool \<times> configuration" where
  "check_write_access_loop [] priority cfg = (True, cfg)"
| "check_write_access_loop (p # ps) priority cfg =
     (let (stored, cfg') = getitem_default p cfg
      in if priority < max_default (map explicit_priority stored) 0 then (False, cfg')
         else check_write_access_loop ps priority cfg')"

definition check_write_access :: "path \<Rightarrow> int \<Rightarrow> configuration \<Rightarrow> bool \<times> configuration" where
  "check_write_access p priority cfg =
     check_write_access_loop (map (\<lambda>i. take i p) [1..<length p]) priority cfg"

text \<open>
  \<open>to_dict\<close>: the keys compatible with \<open>restrict\<close>, sorted by length (\<open>sorted\<close> is
  stable), each resolved and, when write access is granted, assigned into the
  \<open>PathDict\<close>. An exception ends the loop.
\<close>

fun to_dict_loop ::
  "path list \<Rightarrow> int \<Rightarrow> pyval \<Rightarrow> configuration \<Rightarrow> (error + pyval) \<times> configuration" where
  "to_dict_loop [] priority d cfg = (Inr d, cfg)"
| "to_dict_loop (p # ps) priority d cfg =
     (case get_entry_for_priority p priority cfg of
        (Inl err, cfg') \<Rightarrow> (Inl err, cfg')
      | (Inr entry, cfg') \<Rightarrow>
          (case check_write_access p (e_priority entry) cfg' of
             (False, cfg'') \<Rightarrow> to_dict_loop ps priority d cfg''
           | (True, cfg'') \<Rightarrow>
               (case setitem_path d p (e_value entry) of
                  Inl err \<Rightarrow> (Inl err, cfg'')
                | Inr d' \<Rightarrow> to_dict_loop ps priority d' cfg'')))"

definition compatible_paths :: "path \<Rightarrow> configuration \<Rightarrow> path list" where
  "compatible_paths restrict cfg =
     filter (\<lambda>k. is_compatible_with restrict k) (map fst (entries_by_path cfg))"

definition to_dict :: "path \<Rightarrow> int \<Rightarrow> configuration \<Rightarrow> (error + pyval) \<times> configuration" where
  "to_dict restrict priority cfg =
     to_dict_loop (sort_key length (compatible_paths restrict cfg)) priority (VDict []) cfg"

text \<open>\<open>get_value\<close>: \<open>self.to_dict(restrict=path)[path]\<close>\<close>

definition get_value :: "path \<Rightarrow> configuration \<Rightarrow> (error + pyval) \<times> configuration" where
  "get_value p cfg =
     (case to_dict p 0 cfg of
        (Inl err, cfg') \<Rightarrow> (Inl err, cfg')
      | (Inr d, cfg') \<Rightarrow> (getitem_path d p, cfg'))"

section \<open>Rendering a path (Path.__repr__, Path.format_part)\<close>

text \<open>
  Strings are lists of ASCII characters. \<open>str\<close> of a float or a complex number is not
  modelled: the two functions come as the parameters \<open>sf\<close> and \<open>sc\<close>.
\<close>

definition digits :: string where
  "digits = ''0123456789''"


definition squote :: char where
  "squote = CHR 0x27"

definition dquote :: char where
  "dquote = CHR 0x22"

definition backslash :: char where
  "backslash = CHR 0x5C"

definition newline :: char where
  "newline = CHR 0x0A"

definition is_digit :: "char \<Rightarrow> bool" where
  "is_digit c = (c \<in> set digits)"



definition is_space :: "char \<Rightarrow> bool" where
  "is_space c =
     (c \<in> set [CHR '' '', CHR 0x09, CHR 0x0A, CHR 0x0B, CHR 0x0C, CHR 0x0D,
               CHR 0x1C, CHR 0x1D, CHR 0x1E, CHR 0x1F])"







text \<open>
  \<open>repr\<close> of a string, as it stands inside the \<open>str\<close> of a tuple: double quotes when the
  string has a single quote and no double quote, single quotes otherwise; the quote in
  use, the backslash and the control characters are escaped.
\<close>

definition hex_digits :: string where
  "hex_digits = ''0123456789abcdef''"







section \<open>Parsing a path (path_parser, PathTransformer)\<close>

text \<open>
  \<open>Path.from_str\<close> hands the text to a parser that the Lark library builds from the
  grammar \<open>path_parser\<close>, and the parse tree to \<open>PathTransformer\<close>. The model is the
  grammar: a terminal is a function that matches its regular expression at the start of a
  text, as \<open>re.match\<close> does, and gives the token and the rest of the text; a rule is a
  clause of a derivation relation, with the value that the transformer computes and the
  sum of the rule priorities (\<open>integer.3\<close>, \<open>slice_key.2\<close>, ...; a rule without a
  priority counts 0). The parser returns the value of a derivation of the whole text with
  the highest priority. The conversions \<open>float\<close> and \<open>complex\<close> of a literal are the
  parameters \<open>flo\<close> and \<open>cpx\<close>.
\<close>

subsection \<open>Terminals\<close>

text \<open>An anonymous terminal such as \<open>"["\<close>, \<open>"None"\<close> or \<open>",)"\<close>: the text starts with it.\<close>

definition lit :: "string \<Rightarrow> string \<Rightarrow> string option" where
  "lit t s = (if take (length t) s = t then Some (drop (length t) s) else None)"

text \<open>A greedy, non-empty run of characters of a class: \<open>/\w+/\<close> and \<open>/[^"'.\]\s]+/\<close>.\<close>

definition match_run :: "(char \<Rightarrow> bool) \<Rightarrow> string \<Rightarrow> (string \<times> string) option" where
  "match_run P s =
     (if takeWhile P s = [] then None else Some (takeWhile P s, dropWhile P s))"


definition other_char :: "char \<Rightarrow> bool" where
  "other_char c = (c \<noteq> dquote \<and> c \<noteq> squote \<and> c \<noteq> CHR ''.'' \<and> c \<noteq> CHR '']'' \<and> \<not> is_space c)"

definition match_OTHER :: "string \<Rightarrow> (string \<times> string) option" where
  "match_OTHER = match_run other_char"

text \<open>The optional minus sign \<open>-?\<close> in front of a number.\<close>

definition opt_minus :: "string \<Rightarrow> string \<times> string" where
  "opt_minus s = (case s of c # r \<Rightarrow> if c = CHR ''-'' then (''-'', r) else ([], s) | [] \<Rightarrow> ([], s))"

text \<open>\<open>DEC_NUMBER: /0|-?[1-9]\d*/i\<close>: the first alternative wins when the text starts with 0.\<close>

definition match_DEC :: "string \<Rightarrow> (string \<times> string) option" where
  "match_DEC s =
     (case s of
        [] \<Rightarrow> None
      | c # r \<Rightarrow>
          if c = CHR ''0'' then Some (''0'', r)
          else (let (sg, r1) = opt_minus s
                in case r1 of
                     [] \<Rightarrow> None
                   | d # _ \<Rightarrow>
                       if is_digit d \<and> d \<noteq> CHR ''0''
                       then Some (sg @ takeWhile is_digit r1, dropWhile is_digit r1)
                       else None))"

text \<open>
  \<open>HEX_NUMBER: /-?0x[\da-f]*/i\<close>, \<open>OCT_NUMBER: /-?0o[0-7]*/i\<close> and
  \<open>BIN_NUMBER: /-?0b[0-1]*/i\<close>: the prefix in either case, then the digits of the base.
\<close>

definition match_based :: "char \<Rightarrow> char \<Rightarrow> string \<Rightarrow> string \<Rightarrow> (string \<times> string) option" where
  "match_based lower upper ds s =
     (let (sg, r1) = opt_minus s
      in case r1 of
           z # x # r2 \<Rightarrow>
             if z = CHR ''0'' \<and> (x = lower \<or> x = upper)
             then Some (sg @ [z, x] @ takeWhile (\<lambda>c. c \<in> set ds) r2,
                        dropWhile (\<lambda>c. c \<in> set ds) r2)
             else None
         | _ \<Rightarrow> None)"

definition match_HEX :: "string \<Rightarrow> (string \<times> string) option" where
  "match_HEX = match_based CHR ''x'' CHR ''X'' ''0123456789abcdefABCDEF''"

definition match_OCT :: "string \<Rightarrow> (string \<times> string) option" where
  "match_OCT = match_based CHR ''o'' CHR ''O'' ''01234567''"

definition match_BIN :: "string \<Rightarrow> (string \<times> string) option" where
  "match_BIN = match_based CHR ''b'' CHR ''B'' ''01''"

text \<open>
  \<open>FLOAT_NUMBER: /-?((\d+\.\d*|\.\d+|\d+)(e[-+]?\d+)?|\d+(e[-+]?\d+))/i\<close>. The mantissa
  is digits with a point, a point with digits, or digits; an exponent that is complete is
  taken. The last alternative of the expression matches nothing that the first does not.
\<close>

definition match_mantissa :: "string \<Rightarrow> (string \<times> string) option" where
  "match_mantissa s =
     (let ds = takeWhile is_digit s; r = dropWhile is_digit s
      in if ds \<noteq> [] \<and> r \<noteq> [] \<and> hd r = CHR ''.''
         then Some (ds @ ''.'' @ takeWhile is_digit (tl r), dropWhile is_digit (tl r))
         else if s \<noteq> [] \<and> hd s = CHR ''.'' \<and> takeWhile is_digit (tl s) \<noteq> []
         then Some (''.'' @ takeWhile is_digit (tl s), dropWhile is_digit (tl s))
         else if ds \<noteq> [] then Some (ds, r)
         else None)"

definition match_exponent :: "string \<Rightarrow> (string \<times> string) option" where
  "match_exponent s =
     (case s of
        [] \<Rightarrow> None
      | e # r \<Rightarrow>
          if e = CHR ''e'' \<or> e = CHR ''E'' then
            (let (sg, r1) = (case r of
                               c # r' \<Rightarrow> if c = CHR ''-'' \<or> c = CHR ''+'' then ([c], r') else ([], r)
                             | [] \<Rightarrow> ([], r))
             in if takeWhile is_digit r1 = [] then None
                else Some (e # sg @ takeWhile is_digit r1, dropWhile is_digit r1))
          else None)"

definition match_FLOAT :: "string \<Rightarrow> (string \<times> string) option" where
  "match_FLOAT s =
     (let (sg, r) = opt_minus s
      in case match_mantissa r of
           None \<Rightarrow> None
         | Some (m, r1) \<Rightarrow>
             (case match_exponent r1 of
                None \<Rightarrow> Some (sg @ m, r1)
              | Some (e, r2) \<Rightarrow> Some (sg @ m @ e, r2)))"

text \<open>
  \<open>IMAG_NUMBER: /-?\d+j/i | FLOAT_NUMBER "j"i\<close>: a float literal and the letter j; what
  the first alternative matches, the second matches with the same token.
\<close>

definition match_IMAG :: "string \<Rightarrow> (string \<times> string) option" where
  "match_IMAG s =
     (case match_FLOAT s of
        Some (t, c # r) \<Rightarrow> if c = CHR ''j'' \<or> c = CHR ''J'' then Some (t @ [c], r) else None
      | _ \<Rightarrow> None)"

text \<open>The anonymous terminal \<open>/[+-]/\<close> of \<open>complex_value\<close>.\<close>

definition match_sign :: "string \<Rightarrow> (string \<times> string) option" where
  "match_sign s =
     (case s of c # r \<Rightarrow> if c = CHR ''+'' \<or> c = CHR ''-'' then Some ([c], r) else None
      | [] \<Rightarrow> None)"

text \<open>
  \<open>/".*?(?<!\\)(\\\\)*?"/\<close> and the same with single quotes: the token ends at the first
  quote that an even number of backslashes precedes; \<open>.\<close> does not match a newline.
  \<open>closing q even k s\<close> is the index of that quote in the text after the opening quote.
\<close>

fun closing :: "char \<Rightarrow> bool \<Rightarrow> nat \<Rightarrow> string \<Rightarrow> nat option" where
  "closing q ev k [] = None"
| "closing q ev k (c # cs) =
     (if c = q \<and> ev then Some k
      else if c = newline then None
      else closing q (if c = backslash then \<not> ev else True) (Suc k) cs)"

definition match_STRING :: "char \<Rightarrow> string \<Rightarrow> (string \<times> string) option" where
  "match_STRING q s =
     (case s of
        [] \<Rightarrow> None
      | c # r \<Rightarrow>
          if c = q then
            (case closing q True 0 r of
               None \<Rightarrow> None
             | Some k \<Rightarrow> Some (q # take k r @ [q], drop (Suc k) r))
          else None)"

subsection \<open>The values of the transformer\<close>

text \<open>
  \<open>SyntaxError\<close> is what \<open>ast.literal_eval\<close> raises for a prefix without digits such as
  \<open>0x\<close>. \<open>literal_eval\<close> reads the token of an integer in base 10, 16, 8 or 2.
\<close>

definition digit_value :: "char \<Rightarrow> nat" where
  "digit_value c =
     (if c \<in> set ''ABCDEF'' then 10 + length (takeWhile (\<lambda>x. x \<noteq> c) ''ABCDEF'')
      else length (takeWhile (\<lambda>x. x \<noteq> c) hex_digits))"

definition base_value :: "nat \<Rightarrow> string \<Rightarrow> nat" where
  "base_value b ds = foldl (\<lambda>n c. n * b + digit_value c) 0 ds"

definition literal_eval :: "string \<Rightarrow> error + int" where
  "literal_eval t =
     (let (sg, r) = opt_minus t;
          sign = (if sg = [] then 1 else - 1)
      in case r of
           z # x # ds \<Rightarrow>
             if z = CHR ''0'' \<and> x \<in> set ''xXoObB'' then
               (if ds = [] then Inl SyntaxError
                else Inr (sign * int (base_value
                            (if x \<in> set ''xX'' then 16 else if x \<in> set ''oO'' then 8 else 2) ds)))
             else Inr (sign * int (base_value 10 r))
         | _ \<Rightarrow> Inr (sign * int (base_value 10 r)))"

text \<open>
  \<open>integer.3: DEC_NUMBER | HEX_NUMBER | BIN_NUMBER | OCT_NUMBER\<close>, with
  \<open>literal_eval(args[0])\<close>: the value and the rest of the text, for each terminal that
  matches.
\<close>

definition integer_cands :: "string \<Rightarrow> ((error + int) \<times> string) list" where
  "integer_cands s =
     List.map_filter (\<lambda>m. map_option (\<lambda>(t, r). (literal_eval t, r)) m)
       [match_DEC s, match_HEX s, match_BIN s, match_OCT s]"

text \<open>\<open>[integer]\<close>: an integer or nothing.\<close>

definition opt_integer :: "string \<Rightarrow> ((error + int) option \<times> string) list" where
  "opt_integer s = (None, s) # map (\<lambda>(v, r). (Some v, r)) (integer_cands s)"

text \<open>
  \<open>!slice_key.2: [integer] ":"i [integer] [":"i [integer]]\<close>. The transformer counts the
  colons to place each integer as start, stop or step. A candidate is the value, the
  number of integers in it and the rest of the text.
\<close>

definition slice_value ::
  "(error + int) option \<Rightarrow> (error + int) option \<Rightarrow> (error + int) option \<Rightarrow> error + key" where
  "slice_value a b c =
     (case (a, b, c) of
        (Some (Inl e), _, _) \<Rightarrow> Inl e
      | (_, Some (Inl e), _) \<Rightarrow> Inl e
      | (_, _, Some (Inl e)) \<Rightarrow> Inl e
      | _ \<Rightarrow> Inr (KSlice (case a of Some (Inr i) \<Rightarrow> Some i | _ \<Rightarrow> None)
                         (case b of Some (Inr i) \<Rightarrow> Some i | _ \<Rightarrow> None)
                         (case c of Some (Inr i) \<Rightarrow> Some i | _ \<Rightarrow> None)))"

definition count_some :: "'a option list \<Rightarrow> nat" where
  "count_some xs = length (filter (\<lambda>x. x \<noteq> None) xs)"

definition slice_cands :: "string \<Rightarrow> ((error + key) \<times> nat \<times> string) list" where
  "slice_cands s =
     concat (map (\<lambda>(a, r1).
       case lit '':'' r1 of
         None \<Rightarrow> []
       | Some r2 \<Rightarrow>
           concat (map (\<lambda>(b, r3).
             (slice_value a b None, count_some [a, b], r3) #
             (case lit '':'' r3 of
                None \<Rightarrow> []
              | Some r4 \<Rightarrow>
                  map (\<lambda>(c, r5). (slice_value a b c, count_some [a, b, c], r5))
                    (opt_integer r4)))
             (opt_integer r2)))
       (opt_integer s))"

text \<open>\<open>complex_value.2: [FLOAT_NUMBER /[+-]/] IMAG_NUMBER\<close>: the joined tokens and the rest.\<close>

definition complex_cands :: "string \<Rightarrow> (string \<times> string) list" where
  "complex_cands s =
     (case match_IMAG s of None \<Rightarrow> [] | Some (t, r) \<Rightarrow> [(t, r)]) @
     (case match_FLOAT s of
        None \<Rightarrow> []
      | Some (f, r1) \<Rightarrow>
          (case match_sign r1 of
             None \<Rightarrow> []
           | Some (sg, r2) \<Rightarrow>
               (case match_IMAG r2 of None \<Rightarrow> [] | Some (t, r3) \<Rightarrow> [(f @ sg @ t, r3)])))"

text \<open>The tuple of the values of its items; an item that failed makes the tuple fail.\<close>

fun collect :: "(error + key) list \<Rightarrow> error + key list" where
  "collect [] = Inr []"
| "collect (Inl e # vs) = Inl e"
| "collect (Inr k # vs) = (case collect vs of Inl e \<Rightarrow> Inl e | Inr ks \<Rightarrow> Inr (k # ks))"

definition tuple_value :: "(error + key) list \<Rightarrow> error + key" where
  "tuple_value vs = (case collect vs of Inl e \<Rightarrow> Inl e | Inr ks \<Rightarrow> Inr (KTuple ks))"

subsection \<open>The rules\<close>

text \<open>
  \<open>key_derives flo cpx s r v n\<close>: a key is derived from the start of the text \<open>s\<close>, with
  the rest \<open>r\<close>, the value \<open>v\<close> and the priority \<open>n\<close>. \<open>more_keys\<close> is \<open>("," key)*\<close>.
\<close>

inductive key_derives ::
    "(string \<Rightarrow> error + key) \<Rightarrow> (string \<Rightarrow> error + key) \<Rightarrow>
       string \<Rightarrow> string \<Rightarrow> error + key \<Rightarrow> nat \<Rightarrow> bool"
  and more_keys ::
    "(string \<Rightarrow> error + key) \<Rightarrow> (string \<Rightarrow> error + key) \<Rightarrow>
       string \<Rightarrow> string \<Rightarrow> (error + key) list \<Rightarrow> nat \<Rightarrow> bool"
  for flo cpx
where
  k_integer: "(v, r) \<in> set (integer_cands s) \<Longrightarrow> key_derives flo cpx s r (map_sum id KInt v) 3"
| k_slice: "(v, n, r) \<in> set (slice_cands s) \<Longrightarrow> key_derives flo cpx s r v (2 + 3 * n)"
| k_float: "match_FLOAT s = Some (t, r) \<Longrightarrow> key_derives flo cpx s r (flo t) 2"
| k_complex: "(t, r) \<in> set (complex_cands s) \<Longrightarrow> key_derives flo cpx s r (cpx t) 2"
| k_true: "lit ''True'' s = Some r \<Longrightarrow> key_derives flo cpx s r (Inr (KBool True)) 2"
| k_false: "lit ''False'' s = Some r \<Longrightarrow> key_derives flo cpx s r (Inr (KBool False)) 2"
| k_none: "lit ''None'' s = Some r \<Longrightarrow> key_derives flo cpx s r (Inr KNone) 2"
| k_string_double:
    "match_STRING dquote s = Some (t, r) \<Longrightarrow> key_derives flo cpx s r (Inr (KStr (butlast (tl t)))) 0"
| k_string_single:
    "match_STRING squote s = Some (t, r) \<Longrightarrow> key_derives flo cpx s r (Inr (KStr (butlast (tl t)))) 0"
| k_other: "match_OTHER s = Some (t, r) \<Longrightarrow> key_derives flo cpx s r (Inr (KStr t)) 0"
| k_tuple_empty: "lit ''()'' s = Some r \<Longrightarrow> key_derives flo cpx s r (Inr (KTuple [])) 0"
| k_tuple_one:
    "lit ''('' s = Some s1 \<Longrightarrow> key_derives flo cpx s1 s2 v n \<Longrightarrow> lit '',)'' s2 = Some r \<Longrightarrow>
     key_derives flo cpx s r (tuple_value [v]) n"
| k_tuple_many:
    "lit ''('' s = Some s1 \<Longrightarrow> key_derives flo cpx s1 s2 v n \<Longrightarrow>
     more_keys flo cpx s2 s3 vs m \<Longrightarrow> vs \<noteq> [] \<Longrightarrow>
     s4 = s3 \<or> lit '','' s3 = Some s4 \<Longrightarrow> lit '')'' s4 = Some r \<Longrightarrow>
     key_derives flo cpx s r (tuple_value (v # vs)) (n + m)"
| more_none: "more_keys flo cpx s s [] 0"
| more_key:
    "lit '','' s = Some s1 \<Longrightarrow> key_derives flo cpx s1 s2 v n \<Longrightarrow>
     more_keys flo cpx s2 s3 vs m \<Longrightarrow> more_keys flo cpx s s3 (v # vs) (n + m)"




section \<open>Notions for the statements\<close>

text \<open>
  \<open>key_norm\<close> maps a key to a representative of its class under \<open>==\<close>: every number
  becomes a complex number. Two keys are equal for Python exactly when their
  representatives are the same.
\<close>

fun key_norm :: "key \<Rightarrow> key" where
  "key_norm (KInt i) = KComplex (of_int i) 0"
| "key_norm (KBool b) = KComplex (if b then 1 else 0) 0"
| "key_norm (KFloat r) = KComplex r 0"
| "key_norm (KTuple ks) = KTuple (map key_norm ks)"
| "key_norm k = k"

text \<open>
  \<open>extend_keys cfg ps\<close> is the configuration \<open>cfg\<close> with an empty list stored at each
  path of \<open>ps\<close>, after the keys that \<open>cfg\<close> has.
\<close>

definition extend_keys :: "configuration \<Rightarrow> path list \<Rightarrow> configuration" where
  "extend_keys cfg ps = cfg\<lparr>entries_by_path := entries_by_path cfg @ map (\<lambda>p. (p, [])) ps\<rparr>"

subsection \<open>The paths of the round trip\<close>








section \<open>Scenarios\<close>

text \<open>
  The configuration after a call of \<open>add_entry\<close>; a failed assertion leaves it as it was.
\<close>

definition after_add :: "path \<Rightarrow> pyval \<Rightarrow> int option \<Rightarrow> configuration \<Rightarrow> configuration" where
  "after_add p v priority cfg =
     (case add_entry p v priority cfg of Inl _ \<Rightarrow> cfg | Inr cfg' \<Rightarrow> cfg')"

text \<open>
  The first scenario adds a dict at \<open>a\<close> and then writes to the slice \<open>a[:2]\<close>, which
  asks for a list at \<open>a\<close>.
\<close>

definition shape_conflict :: configuration where
  "shape_conflict =
     after_add [KStr ''a'', KSlice None (Some 2) None] (VList [Leaf (AInt 9)]) (Some 4)
       (after_add [KStr ''a''] (VDict [(KStr ''b'', Leaf (AInt 1))]) (Some 2) Configuration)"


text \<open>The third scenario: a new configuration with the leaf 1 at \<open>b\<close>.\<close>

definition read_scenario :: configuration where
  "read_scenario = after_add [KStr ''b''] (Leaf (AInt 1)) None Configuration"


section \<open>Properties of paths\<close>

lemma py_eq_list_refl_aux: "(\<And>k. k \<in> set ks \<Longrightarrow> py_eq k k) \<Longrightarrow> py_eq_list ks ks"
  by (induction ks) auto

lemma py_eq_refl: "py_eq k k"
  by (induction k) (auto intro: py_eq_list_refl_aux)

lemma path_eq_refl: "path_eq p p"
  by (simp add: path_eq_def py_eq_list_refl_aux py_eq_refl)

text \<open>
  The part of C7 that the code satisfies: the empty path is a prefix of every path and
  compatible with every path.
\<close>

theorem empty_path_prefix_compatible:
  "is_prefix_of [] p \<and> is_compatible_with [] p"
  by (simp add: is_prefix_of_def is_compatible_with_def path_eq_def slice_upto_def
      clamp_index_def)

text \<open>
  C7 (the empty path is a prefix of, a suffix of and compatible with every path), at the
  failing input \<open>Path().is_suffix_of(Path("a"))\<close>: with \<open>len(self) = 0\<close> the slice
  \<open>other.parts[-0:]\<close> is the whole tuple, the comparison is \<open>() == ("a",)\<close>, and the
  empty path is not reported as a suffix.
\<close>

theorem empty_path_not_suffix: "is_suffix_of [] [KStr ''a''] = False"
  by (simp add: is_suffix_of_def path_eq_def slice_from_def clamp_index_def)

section \<open>Properties of entries\<close>

lemma node_type_not_ANY: "snd (get_value_and_type v) \<noteq> ANY"
  by (simp add: get_value_and_type_def ANY_def LEAF_def DICT_def LIST_def split: pyval.splits)

lemma Entry_sel [simp]:
  "e_path (Entry p pr v t i) = p"
  "e_priority (Entry p pr v t i) = pr"
  "e_value (Entry p pr v t i) = v"
  "e_implicit (Entry p pr v t i) = i"
  by (simp_all add: Entry_def split: prod.splits)

lemma Entry_type_not_ANY: "e_type (Entry p pr v t i) \<noteq> ANY"
  using node_type_not_ANY [of v] by (cases "get_value_and_type v") (simp add: Entry_def)

lemma Entry_not_ANY:
  "t \<noteq> ANY \<Longrightarrow>
   Entry p pr v t i = \<lparr>e_path = p, e_priority = pr, e_value = v, e_type = t, e_implicit = i\<rparr>"
  by (simp add: Entry_def split: prod.splits)

lemma ANY_all_bits: "ANY = - 1"
  by (simp add: ANY_def LEAF_def DICT_def LIST_def)

lemma and_not_ANY: "a \<noteq> ANY \<Longrightarrow> a AND b \<noteq> ANY"
  by (simp add: ANY_all_bits and_eq_minus_1_iff)

text \<open>
  C3: for two entries with equal paths, \<open>e1.merge(e2)\<close> returns an entry with the value of
  \<open>e1\<close> when \<open>e1.explicit_priority >= e2.explicit_priority\<close> and the value of \<open>e2\<close>
  otherwise, the maximum of the two priorities, the bitwise intersection of the two
  shapes, and the conjunction of the two implicit flags. The entries are any two that the
  constructor of \<open>Entry\<close> builds.
\<close>

theorem merge_entries:
  assumes "path_eq p1 p2"
  shows "merge (Entry p1 pr1 v1 t1 i1) (Entry p2 pr2 v2 t2 i2) =
     Inr \<lparr>e_path = p1, e_priority = max pr1 pr2,
          e_value = (if explicit_priority (Entry p1 pr1 v1 t1 i1)
                          \<ge> explicit_priority (Entry p2 pr2 v2 t2 i2) then v1 else v2),
          e_type = e_type (Entry p1 pr1 v1 t1 i1) AND e_type (Entry p2 pr2 v2 t2 i2),
          e_implicit = (i1 \<and> i2)\<rparr>"
proof -
  have "e_type (Entry p1 pr1 v1 t1 i1) AND e_type (Entry p2 pr2 v2 t2 i2) \<noteq> ANY"
    by (rule and_not_ANY) (rule Entry_type_not_ANY)
  then show ?thesis
    using assms by (simp add: merge_def Entry_not_ANY)
qed

theorem merge_entries_witness:
  "merge (Entry [KStr ''a''] 4 (VList []) LIST True)
         (Entry [KStr ''a''] 2 (VList [Leaf (AInt 1)]) ANY False) =
   Inr \<lparr>e_path = [KStr ''a''], e_priority = 4, e_value = VList [Leaf (AInt 1)],
        e_type = LIST, e_implicit = False\<rparr>"
proof -
  have h: "path_eq [KStr ''a''] [KStr ''a'']"
    by (simp add: path_eq_def)
  show ?thesis
    using merge_entries [OF h, of 4 "VList []" LIST True 2 "VList [Leaf (AInt 1)]" ANY False]
    by (simp add: Entry_def get_value_and_type_def explicit_priority_def ANY_def LEAF_def
        DICT_def LIST_def)
qed

text \<open>
  C4 as the code has it: for an entry at a path of length \<open>n\<close>, \<open>get_implicit_entries\<close>
  yields one implicit entry for each prefix of length 1 to \<open>n - 1\<close>, with the priority of
  the entry and \<open>implicit=True\<close>, and the entry itself last. The key that follows the
  prefix decides shape and value: an integer or a boolean key gives \<open>LIST_OR_DICT\<close> and
  an empty dict, a slice gives \<open>LIST\<close> and an empty list, and a string, float, complex,
  \<open>None\<close> or tuple key gives \<open>DICT\<close> and an empty dict.
\<close>

theorem implicit_entries_shape:
  "get_implicit_entries self =
     map (\<lambda>i. \<lparr>e_path = take i (e_path self), e_priority = e_priority self,
               e_value = (case e_path self ! i of KSlice _ _ _ \<Rightarrow> VList [] | _ \<Rightarrow> VDict []),
               e_type = (case e_path self ! i of
                           KInt _ \<Rightarrow> LIST_OR_DICT
                         | KBool _ \<Rightarrow> LIST_OR_DICT
                         | KSlice _ _ _ \<Rightarrow> LIST
                         | KStr _ \<Rightarrow> DICT
                         | KFloat _ \<Rightarrow> DICT
                         | KComplex _ _ \<Rightarrow> DICT
                         | KNone \<Rightarrow> DICT
                         | KTuple _ \<Rightarrow> DICT),
               e_implicit = True\<rparr>) [1..<length (e_path self)] @ [self]"
  by (simp add: get_implicit_entries_def implicit_entry_at_def Let_def is_int_key_def
      is_slice_key_def Entry_not_ANY ANY_def LEAF_def DICT_def LIST_def LIST_OR_DICT_def
      split: key.splits)

text \<open>
  C4 as stated fails for a boolean key: \<open>isinstance(True, int)\<close> holds, so the implicit
  entry at \<open>a\<close> for the path \<open>a[True]\<close> has the shape \<open>LIST_OR_DICT\<close>, not \<open>DICT\<close>.
\<close>

theorem implicit_entry_boolean_key:
  "e_type (hd (get_implicit_entries
                 (Entry [KStr ''a'', KBool True] 7 (Leaf (AInt 1)) ANY False)))
     = LIST_OR_DICT \<and> LIST_OR_DICT \<noteq> DICT"
  by (simp add: get_implicit_entries_def implicit_entry_at_def Let_def is_int_key_def
      is_slice_key_def Entry_def get_value_and_type_def ANY_def LEAF_def DICT_def LIST_def
      LIST_OR_DICT_def)

section \<open>Equality of paths and the entries of the store\<close>

lemma key_num_norm: "key_num k = Some (re, im) \<Longrightarrow> key_norm k = KComplex re im"
  by (cases k) (auto split: if_splits)

lemma key_num_None_norm: "key_num k = None \<Longrightarrow> key_norm k \<noteq> KComplex re im"
  by (cases k) auto

lemma key_num_norm_iff: "(key_num k = Some (re, im)) = (key_norm k = KComplex re im)"
  by (cases k) (auto split: if_splits)

lemma py_eq_list_norm_aux:
  "(\<And>k b. k \<in> set ks \<Longrightarrow> py_eq k b = (key_norm k = key_norm b)) \<Longrightarrow>
   py_eq_list ks bs = (map key_norm ks = map key_norm bs)"
  by (induction ks arbitrary: bs) (auto split: list.splits)

lemma py_eq_norm: "py_eq a b = (key_norm a = key_norm b)"
proof (induction a arbitrary: b)
  case (KTuple ks)
  then show ?case
    by (cases b) (simp_all add: py_eq_list_norm_aux)
next
  case (KStr s) show ?case by (cases b) simp_all
next
  case (KInt i) show ?case by (cases b) (auto simp: key_num_norm_iff)
next
  case (KBool x) show ?case by (cases b) (auto simp: key_num_norm_iff)
next
  case (KFloat r) show ?case by (cases b) (auto simp: key_num_norm_iff)
next
  case (KComplex re im) show ?case by (cases b) (auto simp: key_num_norm_iff)
next
  case KNone show ?case by (cases b) simp_all
next
  case (KSlice x y z) show ?case by (cases b) auto
qed

lemma path_eq_norm: "path_eq p q = (map key_norm p = map key_norm q)"
  by (simp add: path_eq_def py_eq_list_norm_aux py_eq_norm)

lemma extend_keys_Nil [simp]: "extend_keys cfg [] = cfg"
  by (simp add: extend_keys_def)

lemma find_append_cases:
  "find P (xs @ ys) = (case find P xs of None \<Rightarrow> find P ys | Some x \<Rightarrow> Some x)"
  by (induction xs) auto

lemma find_empty_lists:
  "find (\<lambda>(k, _). path_eq k q) (map (\<lambda>p. (p, [])) ps) = Some (k, es) \<Longrightarrow> es = []"
  by (induction ps) (auto split: if_splits)

lemma entries_at_extend [simp]: "entries_at (extend_keys cfg ps) q = entries_at cfg q"
  by (auto simp: entries_at_def extend_keys_def find_append_cases split: option.splits
      dest: find_empty_lists)

lemma getitem_default_snd:
  "snd (getitem_default p cfg) = (if has_key cfg p then cfg else extend_keys cfg [p])"
  by (auto simp: getitem_default_def has_key_def extend_keys_def split: option.splits)

lemma implicit_entry_at_path [simp]: "e_path (implicit_entry_at self i) = take i (e_path self)"
  by (simp add: implicit_entry_at_def Let_def)

text \<open>
  What \<open>add_entry\<close> stores: each entry is appended to the list of its path, the list of
  every other path is as before.
\<close>

lemma find_append_at:
  "find (\<lambda>(k, _). path_eq k q) (append_at p e s) =
     (if path_eq p q then
        (case find (\<lambda>(k, _). path_eq k q) s of
           None \<Rightarrow> Some (p, [e])
         | Some (k, es) \<Rightarrow> Some (k, es @ [e]))
      else find (\<lambda>(k, _). path_eq k q) s)"
  by (induction s) (auto simp: path_eq_norm split: option.splits)

lemma entries_at_append_entry:
  "entries_at (append_entry cfg e) q =
     entries_at cfg q @ (if path_eq (e_path e) q then [e] else [])"
  by (simp add: entries_at_def append_entry_def find_append_at split: option.splits)

lemma entries_at_foldl_append:
  "entries_at (foldl append_entry cfg es) q =
     entries_at cfg q @ filter (\<lambda>e. path_eq (e_path e) q) es"
  by (induction es arbitrary: cfg) (simp_all add: entries_at_append_entry)

lemma active_priority_foldl_append [simp]:
  "active_priority (foldl append_entry cfg es) = active_priority cfg"
  by (induction es arbitrary: cfg) (simp_all add: append_entry_def)

lemma path_eq_length: "path_eq p q \<Longrightarrow> length p = length q"
  by (metis path_eq_norm length_map)

lemma path_eq_take_length:
  "m \<le> length p \<Longrightarrow> path_eq (take m p) q \<Longrightarrow> length q = m"
  by (drule path_eq_length) simp

lemma filter_prefix_entries:
  assumes "m \<le> length (e_path self)"
  shows "filter (\<lambda>e. path_eq (e_path e) q) (map (implicit_entry_at self) [Suc 0..<m]) =
     (if Suc 0 \<le> length q \<and> length q < m \<and> path_eq (take (length q) (e_path self)) q
      then [implicit_entry_at self (length q)] else [])"
  using assms
proof (induction m)
  case 0
  show ?case by simp
next
  case (Suc m)
  show ?case
  proof (cases "m = 0")
    case True
    then show ?thesis by simp
  next
    case False
    then have up: "[Suc 0..<Suc m] = [Suc 0..<m] @ [m]" by simp
    have m: "m \<le> length (e_path self)" using Suc.prems by simp
    have ih: "filter (\<lambda>e. path_eq (e_path e) q) (map (implicit_entry_at self) [Suc 0..<m]) =
     (if Suc 0 \<le> length q \<and> length q < m \<and> path_eq (take (length q) (e_path self)) q
      then [implicit_entry_at self (length q)] else [])"
      by (rule Suc.IH [OF m])
    show ?thesis
    proof (cases "path_eq (take m (e_path self)) q")
      case True
      then have "length q = m" using m by (rule path_eq_take_length [rotated])
      with True False show ?thesis
        unfolding up by (simp add: ih)
    next
      case nq: False
      have "\<not> (length q = m \<and> path_eq (take (length q) (e_path self)) q)"
        using nq by auto
      then have "(length q < Suc m \<and> path_eq (take (length q) (e_path self)) q) =
                 (length q < m \<and> path_eq (take (length q) (e_path self)) q)"
        by (auto simp: less_Suc_eq)
      with nq show ?thesis
        unfolding up by (simp add: ih)
    qed
  qed
qed

lemma entries_at_add_entry:
  "entries_at (foldl append_entry cfg (get_implicit_entries self)) q =
     entries_at cfg q @
     (if 1 \<le> length q \<and> length q < length (e_path self) \<and> path_eq (take (length q) (e_path self)) q
      then [implicit_entry_at self (length q)] else []) @
     (if path_eq (e_path self) q then [self] else [])"
  by (simp add: entries_at_append_entry entries_at_foldl_append get_implicit_entries_def
      filter_prefix_entries)

section \<open>Properties of the configuration\<close>

lemma getitem_default_fst [simp]: "fst (getitem_default p cfg) = entries_at cfg p"
  by (simp add: getitem_default_def entries_at_def split: option.splits)

lemma get_entry_for_priority_fst:
  "fst (get_entry_for_priority p fl cfg) = resolve p (entries_at cfg p) fl"
  by (simp add: get_entry_for_priority_def split_beta)

lemma merge_loop_not_IndexError: "merge_loop r es \<noteq> Inl IndexError"
  by (induction es arbitrary: r) (auto simp: merge_def split: sum.splits)

lemma sort_key_Nil_iff: "(sort_key f xs = []) = (xs = [])"
  by (metis length_sort length_0_conv)

text \<open>
  C10: \<open>get_entry_for_priority\<close> raises the IndexError of \<open>pop()\<close> on an empty list
  whenever the path has no stored entry with a priority at or above the floor (in
  particular when it has no stored entry), and in no other case; no entry is returned
  then.
\<close>

theorem no_entry_IndexError:
  "(fst (get_entry_for_priority p fl cfg) = Inl IndexError) =
     (filter (\<lambda>e. e_priority e \<ge> fl) (entries_at cfg p) = [])"
  using merge_loop_not_IndexError
  by (auto simp: get_entry_for_priority_fst resolve_def Let_def sort_key_Nil_iff
      split: list.splits sum.splits)

text \<open>
  C5: when the entry that the pop-and-merge loop of \<open>get_entry_for_priority\<close> ends with
  has the empty shape, the call raises the error that names the path and returns no
  entry.
\<close>

theorem empty_type_fails:
  assumes "rev (sort_key e_priority (filter (\<lambda>e. e_priority e \<ge> fl) (entries_at cfg p)))
             = result # remaining"
    and "merge_loop result remaining = Inr r"
    and "e_type r = 0"
  shows "fst (get_entry_for_priority p fl cfg) = Inl (NoViableType p)"
  using assms by (simp add: get_entry_for_priority_fst resolve_def)

theorem empty_type_fails_witness:
  "fst (get_entry_for_priority [KStr ''a''] 0 shape_conflict) = Inl (NoViableType [KStr ''a''])"
proof -
  have h1: "rev (sort_key e_priority
                  (filter (\<lambda>e. e_priority e \<ge> 0) (entries_at shape_conflict [KStr ''a''])))
            = \<lparr>e_path = [KStr ''a''], e_priority = 4, e_value = VList [], e_type = LIST,
                 e_implicit = True\<rparr>
              # [\<lparr>e_path = [KStr ''a''], e_priority = 2,
                   e_value = VDict [(KStr ''b'', Leaf (AInt 1))], e_type = DICT,
                   e_implicit = False\<rparr>]"
    by code_simp
  have h2: "merge_loop
              \<lparr>e_path = [KStr ''a''], e_priority = 4, e_value = VList [], e_type = LIST,
                 e_implicit = True\<rparr>
              [\<lparr>e_path = [KStr ''a''], e_priority = 2,
                 e_value = VDict [(KStr ''b'', Leaf (AInt 1))], e_type = DICT,
                 e_implicit = False\<rparr>]
            = Inr \<lparr>e_path = [KStr ''a''], e_priority = 4,
                    e_value = VDict [(KStr ''b'', Leaf (AInt 1))], e_type = 0,
                    e_implicit = False\<rparr>"
    by code_simp
  show ?thesis
    using empty_type_fails [OF h1 h2] by simp
qed


text \<open>
  C9: \<open>add_entry\<close> with \<open>priority=0\<close> does what it does with the priority omitted: 0 is
  false in \<open>priority or self.active_priority\<close>, so the entry and its implicit entries
  are stored with the active priority, which is \<open>PRIORITIES["forced"] = 7\<close> in a new
  configuration. The call returns a configuration in which the list of entries at any
  path \<open>q\<close> is the list before the call, followed by the implicit entry of the prefix when
  \<open>q\<close> is a non-empty proper prefix of the path, and by the entry itself when \<open>q\<close> is the
  path; each of them has the active priority. In a new configuration the list at the
  path is the entry alone, with priority 7.
\<close>

theorem add_entry_priority_zero:
  "add_entry p v (Some 0) cfg = add_entry p v None cfg \<and>
   add_entry p v (Some 0) cfg =
     Inr (foldl append_entry cfg
            (get_implicit_entries (Entry p (active_priority cfg) v ANY False))) \<and>
   list_all (\<lambda>e. e_priority e = active_priority cfg)
     (get_implicit_entries (Entry p (active_priority cfg) v ANY False)) \<and>
   active_priority Configuration = 7 \<and>
   (\<exists>cfg'. add_entry p v (Some 0) cfg = Inr cfg' \<and>
      active_priority cfg' = active_priority cfg \<and>
      (\<forall>q. entries_at cfg' q =
         entries_at cfg q @
         (if 1 \<le> length q \<and> length q < length p \<and> path_eq (take (length q) p) q
          then [implicit_entry_at (Entry p (active_priority cfg) v ANY False) (length q)]
          else []) @
         (if path_eq p q then [Entry p (active_priority cfg) v ANY False] else [])) \<and>
      (\<forall>i. e_priority (implicit_entry_at (Entry p (active_priority cfg) v ANY False) i) =
              active_priority cfg) \<and>
      e_priority (Entry p (active_priority cfg) v ANY False) = active_priority cfg) \<and>
   (\<exists>cfg'. add_entry p v (Some 0) Configuration = Inr cfg' \<and>
      entries_at cfg' p = [Entry p 7 v ANY False] \<and>
      e_priority (Entry p 7 v ANY False) = 7)"
proof -
  let ?a = "active_priority cfg"
  let ?cfg' = "foldl append_entry cfg (get_implicit_entries (Entry p ?a v ANY False))"
  have zero: "add_entry p v (Some 0) cfg = Inr ?cfg'" and none: "add_entry p v None cfg = Inr ?cfg'"
    by (simp_all add: add_entry_def)
  have prio: "e_priority (implicit_entry_at (Entry p ?a v ANY False) i) = ?a" for i
    by (simp add: implicit_entry_at_def Let_def)
  have all: "list_all (\<lambda>e. e_priority e = ?a) (get_implicit_entries (Entry p ?a v ANY False))"
    by (simp add: get_implicit_entries_def list_all_iff prio)
  have seven: "active_priority Configuration = 7"
    by (simp add: Configuration_def PRIORITIES_def)
  have act: "active_priority ?cfg' = ?a"
    by simp
  have store: "entries_at ?cfg' q =
         entries_at cfg q @
         (if 1 \<le> length q \<and> length q < length p \<and> path_eq (take (length q) p) q
          then [implicit_entry_at (Entry p ?a v ANY False) (length q)]
          else []) @
         (if path_eq p q then [Entry p ?a v ANY False] else [])" for q
    using entries_at_add_entry [of cfg "Entry p ?a v ANY False" q] by simp
  let ?new = "foldl append_entry Configuration (get_implicit_entries (Entry p 7 v ANY False))"
  have fresh: "add_entry p v (Some 0) Configuration = Inr ?new"
    by (simp add: add_entry_def seven)
  have empty: "entries_at Configuration q = []" for q
    by (simp add: entries_at_def Configuration_def)
  have at_p: "entries_at ?new p = [Entry p 7 v ANY False]"
    using entries_at_add_entry [of Configuration "Entry p 7 v ANY False" p]
    by (simp add: empty path_eq_refl)
  show ?thesis
    unfolding zero none
    using all seven act store prio fresh at_p by simp
qed

theorem add_entry_priority_zero_witness:
  "(\<exists>cfg'. add_entry [KStr ''a'', KStr ''b''] (Leaf (AInt 1)) (Some 0) Configuration = Inr cfg' \<and>
      entries_at cfg' [KStr ''a'', KStr ''b''] =
        [\<lparr>e_path = [KStr ''a'', KStr ''b''], e_priority = 7, e_value = Leaf (AInt 1),
           e_type = LEAF, e_implicit = False\<rparr>])"
proof -
  have E: "Entry [KStr ''a'', KStr ''b''] 7 (Leaf (AInt 1)) ANY False =
        \<lparr>e_path = [KStr ''a'', KStr ''b''], e_priority = 7, e_value = Leaf (AInt 1),
           e_type = LEAF, e_implicit = False\<rparr>"
    by (simp add: Entry_def get_value_and_type_def)
  from add_entry_priority_zero [of "[KStr ''a'', KStr ''b'']" "Leaf (AInt 1)" Configuration]
  have "\<exists>cfg'. add_entry [KStr ''a'', KStr ''b''] (Leaf (AInt 1)) (Some 0) Configuration = Inr cfg' \<and>
      entries_at cfg' [KStr ''a'', KStr ''b''] = [Entry [KStr ''a'', KStr ''b''] 7 (Leaf (AInt 1)) ANY False]"
    by blast
  then show ?thesis
    unfolding E .
qed

text \<open>
  C6: in a new configuration, after \<open>add_entry\<close> at \<open>a\<close> with the value \<open>[1, 2, 3, 4]\<close> and
  priority 2 and \<open>add_entry\<close> at \<open>a[:2]\<close> with the value \<open>[9, 9]\<close> and priority 4,
  \<open>to_dict()\<close> is \<open>{"a": [9, 9, 3, 4]}\<close>.
\<close>

theorem slice_write_scenario:
  "(case add_entry [KStr ''a'']
           (VList [Leaf (AInt 1), Leaf (AInt 2), Leaf (AInt 3), Leaf (AInt 4)]) (Some 2)
           Configuration of
      Inl err \<Rightarrow> Inl err
    | Inr cfg1 \<Rightarrow>
        (case add_entry [KStr ''a'', KSlice None (Some 2) None]
                (VList [Leaf (AInt 9), Leaf (AInt 9)]) (Some 4) cfg1 of
           Inl err \<Rightarrow> Inl err
         | Inr cfg2 \<Rightarrow> fst (to_dict [] 0 cfg2)))
   = Inr (VDict [(KStr ''a'', VList [Leaf (AInt 9), Leaf (AInt 9), Leaf (AInt 3), Leaf (AInt 4)])])"
  by code_simp

section \<open>Write access\<close>

lemma check_loop_fst:
  "fst (check_write_access_loop qs pr cfg) =
     (\<not> list_ex (\<lambda>q. pr < max_default (map explicit_priority (entries_at cfg q)) 0) qs)"
proof (induction qs arbitrary: cfg)
  case Nil
  show ?case by simp
next
  case (Cons q qs)
  show ?case
    by (cases "has_key cfg q")
       (simp_all add: split_beta Cons.IH getitem_default_snd)
qed

lemma check_write_access_fst:
  "fst (check_write_access p pr cfg) =
     (\<not> list_ex (\<lambda>q. pr < max_default (map explicit_priority (entries_at cfg q)) 0)
          (map (\<lambda>i. take i p) [1..<length p]))"
  by (simp add: check_write_access_def check_loop_fst)

lemma foldl_max_gt: "(y::int) < foldl max x xs \<longleftrightarrow> y < x \<or> (\<exists>z\<in>set xs. y < z)"
  by (induction xs arbitrary: x) auto

lemma less_max_default:
  "(pr < max_default xs 0) = (if xs = [] then pr < 0 else \<exists>x\<in>set xs. pr < x)"
  by (cases xs) (auto simp: max_default_def foldl_max_gt)

lemma less_max_default_map:
  "(pr < max_default (map f es) 0) = (if es = [] then pr < 0 else \<exists>e\<in>set es. pr < f e)"
  by (simp add: less_max_default)

text \<open>
  \<open>check_write_access(path, priority)\<close> returns \<open>False\<close> exactly when, for some prefix
  \<open>path[:i]\<close> with \<open>1 \<le> i < len(path)\<close>, the maximum explicit priority of the entries
  stored at the prefix (0 when none is stored) exceeds the priority.
\<close>

lemma check_write_access_denied:
  "(\<not> fst (check_write_access p pr cfg)) =
     (\<exists>i. 1 \<le> i \<and> i < length p \<and>
        (let es = entries_at cfg (take i p)
         in if es = [] then pr < 0 else \<exists>e\<in>set es. pr < explicit_priority e))"
proof -
  have "(\<not> fst (check_write_access p pr cfg)) =
      (\<exists>i\<in>{1..<length p}.
         pr < max_default (map explicit_priority (entries_at cfg (take i p))) 0)"
    by (simp add: check_write_access_fst list_ex_iff)
  also have "\<dots> = (\<exists>i. 1 \<le> i \<and> i < length p \<and>
         pr < max_default (map explicit_priority (entries_at cfg (take i p))) 0)"
    by (simp add: Bex_def conj_assoc)
  finally show ?thesis
    by (simp add: less_max_default_map Let_def)
qed


section \<open>Reads of the store\<close>

text \<open>
  \<open>self.entries_by_path[path]\<close> in \<open>get_entry_for_priority\<close>: the \<open>defaultdict\<close> stores an
  empty list at a path that is not a key yet.
\<close>

lemma get_entry_for_priority_snd:
  "snd (get_entry_for_priority p fl cfg) = (if has_key cfg p then cfg else extend_keys cfg [p])"
  by (simp add: get_entry_for_priority_def split_beta getitem_default_snd)

text \<open>
  C8: \<open>get_entry_for_priority\<close>, \<open>check_write_access\<close>, \<open>to_dict\<close> and \<open>get_value\<close> are to
  leave the stored entries as they are. \<open>get_entry_for_priority\<close> does not: asked for the
  path \<open>a\<close> in a new configuration, it leaves the key \<open>a\<close> with an empty list in the
  store. In the third scenario \<open>to_dict()\<close> is \<open>{"b": 1}\<close>; \<open>get_entry_for_priority\<close> for
  the path \<open>a\<close> raises the IndexError and stores the key \<open>a\<close>; after that \<open>to_dict()\<close>
  raises the IndexError, since it resolves every key of the store and the key \<open>a\<close> holds
  no entry.
\<close>

theorem read_adds_key:
  "entries_by_path Configuration = [] \<and>
   entries_by_path (snd (get_entry_for_priority [KStr ''a''] 0 Configuration)) = [([KStr ''a''], [])] \<and>
   fst (to_dict [] 0 read_scenario) = Inr (VDict [(KStr ''b'', Leaf (AInt 1))]) \<and>
   fst (get_entry_for_priority [KStr ''a''] 0 read_scenario) = Inl IndexError \<and>
   entries_by_path (snd (get_entry_for_priority [KStr ''a''] 0 read_scenario)) =
     entries_by_path read_scenario @ [([KStr ''a''], [])] \<and>
   fst (to_dict [] 0 (snd (get_entry_for_priority [KStr ''a''] 0 read_scenario))) = Inl IndexError"
  by code_simp

section \<open>Rendering and parsing of paths\<close>
























lemma lit_Nil: "t \<noteq> [] \<Longrightarrow> lit t [] = None"
  by (cases t) (simp_all add: lit_def)






































































end
